theory Spec2Isabelle
  imports Complex_Main
begin

section \<open>Python values\<close>

text \<open>
  Exceptions are values. The constructors are the classes the program can raise or meet;
  the string is what \<^verbatim>\<open>str(e)\<close> returns, except for \<open>UnboundLocalError\<close>, which carries
  the name of the variable. \<open>ExternalError\<close> stands for any exception coming from outside
  the program text (a missing binary, a failed file operation, a non-zero exit of the
  renderer).
\<close>

datatype py_exc =
    ValueError string
  | IndexError string
  | UnboundLocalError string
  | ExternalError string

text \<open>Characters that cannot be written inside a string literal.\<close>

definition bsl :: string where
  "bsl = [CHR 0x5C]"

definition sq :: string where
  "sq = [CHR 0x27]"

definition nl :: string where
  "nl = [CHR 0x0A]"

text \<open>The message of an unbound local is the one of Python 3.11 and later.\<close>

fun exc_str :: "py_exc \<Rightarrow> string" where
  "exc_str (ValueError m) = m"
| "exc_str (IndexError m) = m"
| "exc_str (UnboundLocalError v) =
     ''cannot access local variable '' @ sq @ v @ sq
     @ '' where it is not associated with a value''"
| "exc_str (ExternalError m) = m"


subsection \<open>Floats\<close>

text \<open>
  A Python float is a binary64 number. A finite one is written here as the rational it
  denotes, and an operation that rounds is the exact operation followed by \<open>fl\<close>, rounding
  to the nearest binary64 value, ties to even. Infinities, NaN and overflow are outside
  this model.

  \<open>expo x\<close> is the binary exponent of the binade of \<open>x\<close>, searched downwards from 1023 and
  stopping at -1022, the exponent shared by the smallest normal numbers and the
  subnormals; \<open>quantum x\<close> is the spacing of binary64 numbers there.
\<close>

type_synonym pyfloat = rat

fun expo_from :: "nat \<Rightarrow> rat \<Rightarrow> int" where
  "expo_from 0 x = - 1022"
| "expo_from (Suc n) x =
     (if 2 powi (int (Suc n) - 1022) \<le> x then int (Suc n) - 1022 else expo_from n x)"

definition expo :: "rat \<Rightarrow> int" where
  "expo x = expo_from 2045 \<bar>x\<bar>"

definition quantum :: "rat \<Rightarrow> rat" where
  "quantum x = 2 powi (expo x - 52)"

text \<open>Rounding a rational to the nearest integer, a tie going to the even neighbour.\<close>

definition rhe :: "rat \<Rightarrow> int" where
  "rhe y = (let k = \<lfloor>y\<rfloor>; r = y - of_int k
            in if r < 1 / 2 then k else if 1 / 2 < r then k + 1
               else if even k then k else k + 1)"

definition fl :: "rat \<Rightarrow> pyfloat" where
  "fl x = of_int (rhe (x / quantum x)) * quantum x"


definition fadd :: "pyfloat \<Rightarrow> pyfloat \<Rightarrow> pyfloat" where
  "fadd x y = fl (x + y)"

definition fsub :: "pyfloat \<Rightarrow> pyfloat \<Rightarrow> pyfloat" where
  "fsub x y = fl (x - y)"

definition fmul :: "pyfloat \<Rightarrow> pyfloat \<Rightarrow> pyfloat" where
  "fmul x y = fl (x * y)"

text \<open>
  \<^verbatim>\<open>x // y\<close> and \<^verbatim>\<open>x % y\<close> on floats, for a positive divisor. The remainder of a
  non-negative float is computed without rounding, and so is the floored quotient as long
  as it stays below \<open>2 ^ 53\<close>; both are written exactly.
\<close>

definition py_floordiv :: "pyfloat \<Rightarrow> pyfloat \<Rightarrow> pyfloat" where
  "py_floordiv x y = of_int \<lfloor>x / y\<rfloor>"

definition py_mod :: "pyfloat \<Rightarrow> pyfloat \<Rightarrow> pyfloat" where
  "py_mod x y = x - of_int \<lfloor>x / y\<rfloor> * y"

text \<open>\<^verbatim>\<open>int(x)\<close> on a float truncates towards zero.\<close>

definition py_int :: "pyfloat \<Rightarrow> int" where
  "py_int x = (if 0 \<le> x then \<lfloor>x\<rfloor> else \<lceil>x\<rceil>)"

subsection \<open>Strings\<close>

definition digit_char :: "nat \<Rightarrow> char" where
  "digit_char d = ''0123456789'' ! (d mod 10)"

fun str_nat :: "nat \<Rightarrow> string" where
  "str_nat n = (if n < 10 then [digit_char n] else str_nat (n div 10) @ [digit_char (n mod 10)])"

declare str_nat.simps [simp del]

definition str_int :: "int \<Rightarrow> string" where
  "str_int i = (if i < 0 then ''-'' @ str_nat (nat (- i)) else str_nat (nat i))"

text \<open>The format specification \<^verbatim>\<open>:02d\<close>: zero padding to width two, after the sign.\<close>

definition fmt_02d :: "int \<Rightarrow> string" where
  "fmt_02d i =
     (let s = str_nat (nat \<bar>i\<bar>)
      in if i < 0 then ''-'' @ replicate (1 - length s) (CHR ''0'') @ s
         else replicate (2 - length s) (CHR ''0'') @ s)"

text \<open>\<^verbatim>\<open>s.split(c)\<close> with a one-character separator: one more part than separators.\<close>

fun split_on :: "char \<Rightarrow> string \<Rightarrow> string list" where
  "split_on c [] = [[]]"
| "split_on c (x # xs) =
     (if x = c then [] # split_on c xs
      else (case split_on c xs of p # ps \<Rightarrow> (x # p) # ps | [] \<Rightarrow> [[x]]))"

text \<open>\<^verbatim>\<open>sep.join(parts)\<close>.\<close>

fun join :: "string \<Rightarrow> string list \<Rightarrow> string" where
  "join sep [] = []"
| "join sep [p] = p"
| "join sep (p # q # ps) = p @ sep @ join sep (q # ps)"

text \<open>\<^verbatim>\<open>s.replace(c, r)\<close> for a one-character pattern.\<close>

definition replace_char :: "char \<Rightarrow> string \<Rightarrow> string \<Rightarrow> string" where
  "replace_char c r s = concat (map (\<lambda>x. if x = c then r else [x]) s)"

text \<open>
  \<^verbatim>\<open>s.upper()\<close> on the ASCII letters. A string is a list of bytes here, and a character
  outside ASCII is left as it is.
\<close>

definition upper_char :: "char \<Rightarrow> char" where
  "upper_char c =
     (if 97 \<le> (of_char c :: nat) \<and> (of_char c :: nat) \<le> 122
      then char_of (of_char c - 32 :: nat) else c)"

definition upper :: "string \<Rightarrow> string" where
  "upper s = map upper_char s"

text \<open>Whitespace as \<^verbatim>\<open>str.split()\<close> and \<^verbatim>\<open>str.strip()\<close> see it, on ASCII.\<close>

definition is_space :: "char \<Rightarrow> bool" where
  "is_space c \<longleftrightarrow> (of_char c :: nat) \<in> {9, 10, 11, 12, 13, 28, 29, 30, 31, 32}"

definition strip :: "string \<Rightarrow> string" where
  "strip s = rev (dropWhile is_space (rev (dropWhile is_space s)))"

text \<open>\<^verbatim>\<open>s.split()\<close>: the maximal runs of characters that are not whitespace.\<close>

fun split_ws_acc :: "string \<Rightarrow> string \<Rightarrow> string list" where
  "split_ws_acc cur [] = (if cur = [] then [] else [cur])"
| "split_ws_acc cur (x # xs) =
     (if is_space x then (if cur = [] then split_ws_acc [] xs else cur # split_ws_acc [] xs)
      else split_ws_acc (cur @ [x]) xs)"

definition split_ws :: "string \<Rightarrow> string list" where
  "split_ws s = split_ws_acc [] s"

text \<open>\<^verbatim>\<open>xs[i]\<close> with a non-negative index.\<close>

definition list_get :: "'a list \<Rightarrow> nat \<Rightarrow> py_exc + 'a" where
  "list_get xs i =
     (if i < length xs then Inr (xs ! i) else Inl (IndexError ''list index out of range''))"

text \<open>\<^verbatim>\<open>os.path.join(a, b)\<close> and \<^verbatim>\<open>Path(a) / b\<close> for a relative \<open>b\<close>, on POSIX.\<close>

definition path_join :: "string \<Rightarrow> string \<Rightarrow> string" where
  "path_join a b = (if a = [] \<or> last a = CHR ''/'' then a @ b else a @ ''/'' @ b)"

text \<open>
  Python's \<^verbatim>\<open>float(s)\<close> on plain decimal literals: an optional sign, digits, and an
  optional fraction. \<^verbatim>\<open>float\<close> accepts more than that (exponents, \<^verbatim>\<open>inf\<close>, \<^verbatim>\<open>nan\<close>,
  surrounding blanks); the general results below are stated for an arbitrary conversion,
  and this one serves the concrete runs.
\<close>

definition digit_val :: "char \<Rightarrow> nat option" where
  "digit_val c =
     (if 48 \<le> (of_char c :: nat) \<and> (of_char c :: nat) \<le> 57
      then Some (of_char c - 48) else None)"

fun digits_val :: "nat \<Rightarrow> string \<Rightarrow> nat option" where
  "digits_val acc [] = Some acc"
| "digits_val acc (c # cs) =
     (case digit_val c of None \<Rightarrow> None | Some d \<Rightarrow> digits_val (10 * acc + d) cs)"

definition decimal_val :: "string \<Rightarrow> rat option" where
  "decimal_val s =
     (let ip = takeWhile (\<lambda>c. c \<noteq> CHR ''.'') s;
          fp = drop (length ip + 1) s
      in if ip = [] \<and> fp = [] then None
         else (case (digits_val 0 ip, digits_val 0 fp) of
                 (Some a, Some b) \<Rightarrow> Some (of_nat a + of_nat b / 10 ^ length fp)
               | _ \<Rightarrow> None))"

definition float_of_decimal :: "string \<Rightarrow> py_exc + pyfloat" where
  "float_of_decimal s =
     (let (neg, body) =
            (case s of
               c # cs \<Rightarrow> if c = CHR ''-'' then (True, cs)
                          else if c = CHR ''+'' then (False, cs) else (False, s)
             | [] \<Rightarrow> (False, s))
      in case decimal_val body of
           None \<Rightarrow> Inl (ValueError (''could not convert string to float: '' @ sq @ s @ sq))
         | Some v \<Rightarrow> Inr (fl (if neg then - v else v)))"

section \<open>The timing parser\<close>

text \<open>
  A cue is the dictionary \<^verbatim>\<open>{'word', 'start', 'end'}\<close> of \<^verbatim>\<open>parse_subtitles\<close>; the key
  \<^verbatim>\<open>'end'\<close> is the field \<open>end_time\<close>. The conversion \<^verbatim>\<open>float\<close> is a parameter: it
  returns the float or the exception it raises.
\<close>

record cue =
  word :: string
  start :: pyfloat
  end_time :: pyfloat

text \<open>The \<^verbatim>\<open>while i < len(parts) - 1\<close> loop; \<^verbatim>\<open>parts\<close> is never empty.\<close>

function parse_loop ::
  "(string \<Rightarrow> py_exc + pyfloat) \<Rightarrow> string list \<Rightarrow> nat \<Rightarrow> cue list \<Rightarrow> py_exc + cue list"
where
  "parse_loop float_of parts i subtitles =
     (if i + 1 < length parts then
        (case float_of (parts ! (i + 1)) of
           Inl e \<Rightarrow> Inl e
         | Inr t \<Rightarrow>
             parse_loop float_of parts (i + 2)
               (subtitles @ [\<lparr>word = parts ! i, start = t, end_time = 0\<rparr>]))
      else Inr subtitles)"
  by pat_completeness auto
termination
  by (relation "measure (\<lambda>(f, parts, i, subtitles). length parts - i)") auto

declare parse_loop.simps [simp del]

text \<open>The \<^verbatim>\<open>for i in range(len(subtitles) - 1)\<close> loop, updating the list in place.\<close>

definition backfill :: "cue list \<Rightarrow> cue list" where
  "backfill subtitles =
     fold (\<lambda>i subs. subs[i := (subs ! i)\<lparr>end_time := start (subs ! (i + 1))\<rparr>])
       [0..<length subtitles - 1] subtitles"

definition pad_last :: "cue list \<Rightarrow> cue list" where
  "pad_last subtitles =
     (if subtitles \<noteq> [] then
        subtitles[length subtitles - 1 :=
          (last subtitles)\<lparr>end_time := fadd (start (last subtitles)) 1\<rparr>]
      else subtitles)"

definition parse_subtitles :: "(string \<Rightarrow> py_exc + pyfloat) \<Rightarrow> string \<Rightarrow> py_exc + cue list" where
  "parse_subtitles float_of subtitle_string =
     (case parse_loop float_of (split_on (CHR ''/'') subtitle_string) 0 [] of
        Inl e \<Rightarrow> Inl e
      | Inr subtitles \<Rightarrow> Inr (pad_last (backfill subtitles)))"

section \<open>The subtitle compiler\<close>

definition format_time_ass :: "pyfloat \<Rightarrow> string" where
  "format_time_ass seconds =
     (let hours = py_int (py_floordiv seconds 3600);
          minutes = py_int (py_floordiv (py_mod seconds 3600) 60);
          secs = py_int (py_mod seconds 60);
          centisecs = py_int (fmul (py_mod seconds 1) 100)
      in str_int hours @ '':'' @ fmt_02d minutes @ '':'' @ fmt_02d secs @ ''.''
           @ fmt_02d centisecs)"

text \<open>The style lines. Style 6 has a second one, for the box layer.\<close>

definition style_line :: "int \<Rightarrow> string \<Rightarrow> string option" where
  "style_line caption_number color_stt =
     (if caption_number = 1 then
        Some (''Style: Default,Prohibition Rough,90,'' @ color_stt
              @ '',&H000000FF,&H00000000,&H00000000,0,0,0,0,100,100,0,0,1,9,6,5,10,10,10,1'')
      else if caption_number = 2 then
        Some (''Style: Default,Montserrat Black,90,'' @ color_stt
              @ '',&H000000FF,&H00000000,&H00000000,0,0,0,0,100,100,0,0,1,11,6,5,10,10,10,1'')
      else if caption_number = 3 then
        Some (''Style: Default,Komika Axis,110,&H00FFFFFF,'' @ color_stt
              @ '',&H00000000,&H00000000,0,0,0,0,100,100,0,0,1,7,6,5,10,10,10,1'')
      else if caption_number = 4 then
        Some (''Style: Default,Montserrat ExtraBold,110,'' @ color_stt
              @ '',&H000000FF,&H00000000,&H00000000,0,0,0,0,100,100,0,0,1,8,6,5,10,10,10,1'')
      else if caption_number = 5 then
        Some (''Style: Default,Montserrat ExtraBold,90,'' @ color_stt
              @ '',&H000000FF,&H00000000,&H00000000,0,0,0,0,100,100,0,0,1,8,4,5,10,10,10,1'')
      else if caption_number = 6 then
        Some (''Style: Default,Montserrat ExtraBold,110,'' @ color_stt
              @ '',&H000000FF,&H00000000,&H00000000,0,0,0,0,100,100,0,0,1,0,7,5,10,10,10,1'')
      else if caption_number = 7 then
        Some (''Style: Default,Montserrat ExtraBold,90,'' @ color_stt
              @ '',&H000000FF,&H00000000,&H00000000,0,0,0,0,100,100,0,0,1,8,4,5,10,10,10,1'')
      else None)"

definition style_box :: string where
  "style_box = ''Style: Box,Montserrat ExtraBold,110,&H00FFFFFF,&H000000FF,&H00000000,&H00000000,0,0,0,0,100,100,0,0,3,0,0,5,10,10,10,1''"

text \<open>
  One pass of the inner loop \<^verbatim>\<open>for k, s in enumerate(group)\<close>: what word \<open>k\<close> adds to
  \<^verbatim>\<open>text_parts\<close> and to \<^verbatim>\<open>text_parts_box\<close> while word \<open>j\<close> is the spoken one.
\<close>

definition text_part :: "int \<Rightarrow> string \<Rightarrow> nat \<Rightarrow> nat \<Rightarrow> cue \<Rightarrow> string list" where
  "text_part caption_number color_encours j k s =
     (let w = (if caption_number = 3 \<or> caption_number = 4 \<or> caption_number = 5
               then upper (word s) else word s)
      in if k = j then
           (if caption_number = 3 \<or> caption_number = 4 then
              [''{'' @ bsl @ ''blur10'' @ bsl @ ''c'' @ color_encours @ ''&}'' @ w
                 @ ''{'' @ bsl @ ''r}'']
            else if caption_number = 5 then
              [''{'' @ bsl @ ''blur10'' @ bsl @ ''t(0,50,'' @ bsl @ ''fs110)'' @ bsl @ ''c''
                 @ color_encours @ ''&}'' @ w @ ''{'' @ bsl @ ''r}'']
            else if caption_number = 6 then [w]
            else [])
         else
           (if caption_number = 3 \<or> caption_number = 4 \<or> caption_number = 5 then
              [''{'' @ bsl @ ''blur10}'' @ w]
            else if caption_number = 6 then [w]
            else []))"

definition text_part_box :: "int \<Rightarrow> string \<Rightarrow> nat \<Rightarrow> nat \<Rightarrow> cue \<Rightarrow> string list" where
  "text_part_box caption_number color_encours j k s =
     (let w = (if caption_number = 3 \<or> caption_number = 4 \<or> caption_number = 5
               then upper (word s) else word s)
      in if k = j then
           (if caption_number = 3 \<or> caption_number = 4 then []
            else if caption_number = 5 then []
            else if caption_number = 6 then
              [''{'' @ bsl @ ''bord7'' @ bsl @ ''3c'' @ color_encours @ ''&'' @ bsl
                 @ ''3a&H00&}'' @ w @ ''{'' @ bsl @ ''r}'']
            else [])
         else
           (if caption_number = 3 \<or> caption_number = 4 \<or> caption_number = 5 then []
            else if caption_number = 6 then [w]
            else []))"

text \<open>The two dialogue lines of style 6 and the single one of the other styles.\<close>

definition box_line :: "string \<Rightarrow> string \<Rightarrow> string \<Rightarrow> string" where
  "box_line word_start word_end text_box =
     ''Dialogue: 0,'' @ word_start @ '','' @ word_end @ '',Box,,0,0,0,,{'' @ bsl @ ''1a&HFF&}''
       @ text_box @ nl"

definition default_line :: "nat \<Rightarrow> string \<Rightarrow> string \<Rightarrow> string \<Rightarrow> string" where
  "default_line layer word_start word_end txt =
     ''Dialogue: '' @ str_nat layer @ '','' @ word_start @ '','' @ word_end
       @ '',Default,,0,0,0,,'' @ txt @ nl"

text \<open>
  The body of \<^verbatim>\<open>for j, sub in enumerate(group)\<close>: the lines written for word \<open>j\<close> of a
  window.
\<close>

definition word_lines :: "int \<Rightarrow> string \<Rightarrow> cue list \<Rightarrow> nat \<Rightarrow> string list" where
  "word_lines caption_number color_encours grp j =
     (let sub = grp ! j;
          ks = [0..<length grp];
          text_parts = concat (map (\<lambda>k. text_part caption_number color_encours j k (grp ! k)) ks);
          text_parts_box =
            concat (map (\<lambda>k. text_part_box caption_number color_encours j k (grp ! k)) ks);
          txt = join '' '' text_parts;
          text_box = join '' '' text_parts_box;
          word_start = format_time_ass (start sub);
          word_end = format_time_ass (end_time sub)
      in if caption_number = 6 then
           [box_line word_start word_end text_box, default_line 1 word_start word_end txt]
         else [default_line 0 word_start word_end txt])"

text \<open>The \<^verbatim>\<open>while i < len(subtitles)\<close> loop of styles 3 to 6, in windows of three cues.\<close>

function window_loop :: "int \<Rightarrow> string \<Rightarrow> cue list \<Rightarrow> nat \<Rightarrow> string list" where
  "window_loop caption_number color_encours subtitles i =
     (if i < length subtitles then
        (let grp = filter (\<lambda>s. word s \<noteq> '' '') (take 3 (drop i subtitles))
         in if grp = [] then window_loop caption_number color_encours subtitles (i + 3)
            else concat (map (word_lines caption_number color_encours grp) [0..<length grp])
                   @ window_loop caption_number color_encours subtitles (i + 3))
      else [])"
  by pat_completeness auto
termination
  by (relation "measure (\<lambda>(c, e, subtitles, i). length subtitles - i)") auto

declare window_loop.simps [simp del]

text \<open>The \<^verbatim>\<open>for sub in subtitles\<close> loop of styles 1, 2 and 7.\<close>

fun single_loop :: "int \<Rightarrow> cue list \<Rightarrow> py_exc + string list" where
  "single_loop caption_number [] = Inr []"
| "single_loop caption_number (sub # subtitles) =
     (case (if caption_number = 1 then Some (upper (word sub))
            else if caption_number = 2 then
              Some (''{'' @ bsl @ ''t(0,100,'' @ bsl @ ''fs110)}'' @ word sub)
            else if caption_number = 7 then
              Some (''{'' @ bsl @ ''blur10'' @ bsl @ ''t(0,100,'' @ bsl @ ''fs110)}''
                    @ upper (word sub))
            else None) of
        None \<Rightarrow> Inl (UnboundLocalError ''word'')
      | Some w \<Rightarrow>
          (case single_loop caption_number subtitles of
             Inl e \<Rightarrow> Inl e
           | Inr rest \<Rightarrow>
               if w = '' '' then Inr rest
               else Inr (default_line 0 (format_time_ass (start sub))
                           (format_time_ass (end_time sub)) w # rest)))"

text \<open>The dialogue lines, after the \<^verbatim>\<open>[Events]\<close> header.\<close>

definition dialogue_lines :: "int \<Rightarrow> string \<Rightarrow> cue list \<Rightarrow> py_exc + string list" where
  "dialogue_lines caption_number color_encours subtitles =
     (if caption_number = 3 \<or> caption_number = 4 \<or> caption_number = 5 \<or> caption_number = 6
      then Inr (window_loop caption_number color_encours subtitles 0)
      else single_loop caption_number subtitles)"

text \<open>
  \<^verbatim>\<open>create_ass_file\<close> returns what it writes to the file, one element per \<^verbatim>\<open>f.write\<close>.
  A caption number outside 1 to 7 leaves \<^verbatim>\<open>style\<close> unbound.
\<close>

definition ass_header :: "string list" where
  "ass_header =
     [''[Script Info]'' @ nl,
      ''Title: Auto-generated subtitles'' @ nl,
      ''ScriptType: v4.00+'' @ nl,
      ''WrapStyle: 0'' @ nl,
      ''PlayResX: 1080'' @ nl,
      ''PlayResY: 1920'' @ nl,
      ''ScaledBorderAndShadow: yes'' @ nl @ nl,
      ''[V4+ Styles]'' @ nl,
      ''Format: Name, Fontname, Fontsize, PrimaryColour, SecondaryColour, OutlineColour, BackColour, Bold, Italic, Underline, StrikeOut, ScaleX, ScaleY, Spacing, Angle, BorderStyle, Outline, Shadow, Alignment, MarginL, MarginR, MarginV, Encoding'' @ nl]"

definition events_header :: "string list" where
  "events_header =
     [''[Events]'' @ nl,
      ''Format: Layer, Start, End, Style, Name, MarginL, MarginR, MarginV, Effect, Text'' @ nl]"

definition create_ass_file ::
  "cue list \<Rightarrow> string \<Rightarrow> string \<Rightarrow> int \<Rightarrow> py_exc + string list" where
  "create_ass_file subtitles color_stt color_encours caption_number =
     (case style_line caption_number color_stt of
        None \<Rightarrow> Inl (UnboundLocalError ''style'')
      | Some style \<Rightarrow>
          (case dialogue_lines caption_number color_encours subtitles of
             Inl e \<Rightarrow> Inl e
           | Inr lines \<Rightarrow>
               Inr (ass_header @ [style @ nl]
                    @ (if caption_number = 6 then [style_box @ nl] else [])
                    @ [nl] @ events_header @ lines)))"

section \<open>The environment\<close>

text \<open>
  What the program asks of the interpreter and of the machine it runs on, as functions:
  a conversion returns its value or the exception it raises, an external command returns
  its output or \<open>Some\<close> exception, \<open>None\<close> meaning that it went through. \<open>clock k\<close> is what
  the \<open>k\<close>-th call of \<^verbatim>\<open>datetime.now()\<close> returns and \<open>random_draw i\<close> the draw behind the
  \<open>i\<close>-th call of \<^verbatim>\<open>random.choice\<close> during one render.
\<close>

record env =
  float_of :: "string \<Rightarrow> py_exc + pyfloat"
  int_of :: "string \<Rightarrow> py_exc + int"
  str_float :: "pyfloat \<Rightarrow> string"
  suffix_of :: "string \<Rightarrow> string"
  base_dir :: string
  clock :: "nat \<Rightarrow> nat"
  random_draw :: "nat \<Rightarrow> nat"
  ffprobe :: "string \<Rightarrow> py_exc + string"
  run_ffmpeg :: "string list \<Rightarrow> py_exc option"
  font_exists :: "string \<Rightarrow> bool"
  copy_font :: "string \<Rightarrow> string \<Rightarrow> py_exc option"

definition REQUIRED_FONTS :: "string list" where
  "REQUIRED_FONTS =
     [''KOMIKAX_.ttf'', ''Montserrat-Black.ttf'', ''Montserrat-ExtraBold.ttf'',
      ''Prohibition-RoughOblique.ttf'']"

definition BACKGROUND_MUSIC_MAP :: "string \<rightharpoonup> string" where
  "BACKGROUND_MUSIC_MAP =
     [''1'' \<mapsto> ''tonight.mp3'', ''2'' \<mapsto> ''stranger.mp3'', ''3'' \<mapsto> ''i-was.mp3'',
      ''4'' \<mapsto> ''suspense.mp3'']"

definition TEMP_DIR :: string where
  "TEMP_DIR = ''temp_files''"

text \<open>\<^verbatim>\<open>random.choice(xs)\<close> with the draw \<open>r\<close>, for a list that is not empty.\<close>

definition random_choice :: "nat \<Rightarrow> 'a list \<Rightarrow> 'a" where
  "random_choice r xs = xs ! (r mod length xs)"

section \<open>The filter graph compiler\<close>

definition chromatic_effect :: "string \<Rightarrow> nat \<Rightarrow> string" where
  "chromatic_effect is_chromatic i =
     (let n = str_nat i in
      if is_chromatic = ''oui'' then
        ''scale=iw-mod(iw'' @ bsl @ '',5):ih,''
        @ ''split=5[v'' @ n @ ''_0][v'' @ n @ ''_1][v'' @ n @ ''_2][v'' @ n @ ''_3][v'' @ n
        @ ''_4];''
        @ ''[v'' @ n @ ''_0]crop=iw/5:ih:0*iw/5:0,rgbashift=rh=7:bh=-7:enable='' @ sq
        @ ''lt(mod(t,0.2),0.1)'' @ sq @ ''[c'' @ n @ ''_0];''
        @ ''[v'' @ n @ ''_1]crop=iw/5:ih:1*iw/5:0,rgbashift=rh=7:bh=-7:enable='' @ sq
        @ ''lt(mod(t+0.04,0.2),0.1)'' @ sq @ ''[c'' @ n @ ''_1];''
        @ ''[v'' @ n @ ''_2]crop=iw/5:ih:2*iw/5:0,rgbashift=rh=7:bh=-7:enable='' @ sq
        @ ''lt(mod(t+0.08,0.2),0.1)'' @ sq @ ''[c'' @ n @ ''_2];''
        @ ''[v'' @ n @ ''_3]crop=iw/5:ih:3*iw/5:0,rgbashift=rh=7:bh=-7:enable='' @ sq
        @ ''lt(mod(t+0.12,0.2),0.1)'' @ sq @ ''[c'' @ n @ ''_3];''
        @ ''[v'' @ n @ ''_4]crop=iw/5:ih:4*iw/5:0,rgbashift=rh=7:bh=-7:enable='' @ sq
        @ ''lt(mod(t+0.16,0.2),0.1)'' @ sq @ ''[c'' @ n @ ''_4];''
        @ ''[c'' @ n @ ''_0][c'' @ n @ ''_1][c'' @ n @ ''_2][c'' @ n @ ''_3][c'' @ n
        @ ''_4]hstack=inputs=5[v'' @ n @ ''];''
      else ''null[v'' @ n @ ''];'')"

text \<open>
  \<^verbatim>\<open>get_random_animation\<close>; \<open>r\<close> is the draw of its \<^verbatim>\<open>random.choice\<close> and \<open>dpi\<close> the
  text of \<^verbatim>\<open>duration_per_image\<close>, a float.
\<close>

definition get_random_animation ::
  "nat \<Rightarrow> int \<Rightarrow> int \<Rightarrow> int \<Rightarrow> nat \<Rightarrow> string \<Rightarrow> string \<Rightarrow> string \<Rightarrow> string" where
  "get_random_animation r duration width height i dpi is_chromatic is_zoom_pan =
     (let chromatic = chromatic_effect is_chromatic i in
      if is_zoom_pan = ''non'' then ''trim=duration='' @ dpi @ '','' @ chromatic
      else
        random_choice r
          [''scale=iw*3:ih*3,''
           @ ''zoompan=z='' @ sq @ ''zoom+0.002'' @ sq @ '':''
           @ ''x='' @ sq @ ''iw/2-(iw/zoom/2)'' @ sq @ '':''
           @ ''y='' @ sq @ ''ih/2-(ih/zoom/2)'' @ sq @ '':''
           @ ''d='' @ str_int duration @ '':s='' @ str_int width @ ''x'' @ str_int height @ '',''
           @ ''trim=duration='' @ dpi @ '',''
           @ chromatic,
           ''scale=iw*3:ih*3,''
           @ ''crop=in_w*0.90:in_h*0.90:(in_w*0.10)/'' @ dpi @ ''*t:108,''
           @ ''scale='' @ str_int width @ '':'' @ str_int height @ '',''
           @ ''trim=duration='' @ dpi @ '',''
           @ chromatic,
           ''scale=iw*3:ih*3,''
           @ ''crop=in_w*0.90:in_h*0.90:''
           @ ''((in_w - in_w*0.90) / 2):''
           @ ''in_h*0.10 - (in_h*0.10)/'' @ dpi @ ''*t,''
           @ ''scale='' @ str_int width @ '':'' @ str_int height @ '',''
           @ ''trim=duration='' @ dpi @ '',''
           @ chromatic])"

definition get_audio_duration :: "env \<Rightarrow> string \<Rightarrow> py_exc + pyfloat" where
  "get_audio_duration E file_path =
     (case ffprobe E file_path of Inl e \<Rightarrow> Inl e | Inr out \<Rightarrow> float_of E out)"

text \<open>The first loop of \<^verbatim>\<open>build_video\<close>, over \<^verbatim>\<open>range(len(images))\<close>.\<close>

function durations_loop ::
  "nat \<Rightarrow> pyfloat list \<Rightarrow> pyfloat \<Rightarrow> nat \<Rightarrow> pyfloat list \<Rightarrow> py_exc + pyfloat list" where
  "durations_loop n image_start_times audio_duration i image_durations =
     (if i < n then
        (if i + 1 < n then
           (case list_get image_start_times (i + 1) of
              Inl e \<Rightarrow> Inl e
            | Inr a \<Rightarrow>
                (case list_get image_start_times i of
                   Inl e \<Rightarrow> Inl e
                 | Inr b \<Rightarrow>
                     durations_loop n image_start_times audio_duration (i + 1)
                       (image_durations @ [fsub a b])))
         else
           (case list_get image_start_times i of
              Inl e \<Rightarrow> Inl e
            | Inr b \<Rightarrow>
                durations_loop n image_start_times audio_duration (i + 1)
                  (image_durations @ [fsub audio_duration b])))
      else Inr image_durations)"
  by pat_completeness auto
termination
  by (relation "measure (\<lambda>(n, ts, a, i, ds). n - i)") auto

declare durations_loop.simps [simp del]

definition image_durations_of :: "nat \<Rightarrow> pyfloat list \<Rightarrow> pyfloat \<Rightarrow> py_exc + pyfloat list" where
  "image_durations_of n image_start_times audio_duration =
     durations_loop n image_start_times audio_duration 0 []"

text \<open>The loop \<^verbatim>\<open>for i, img in enumerate(images)\<close> that extends the command.\<close>

fun inputs_loop ::
  "(pyfloat \<Rightarrow> string) \<Rightarrow> pyfloat list \<Rightarrow> string list \<Rightarrow> nat \<Rightarrow> string list \<Rightarrow> string list"
where
  "inputs_loop str image_durations [] i ffmpeg_cmd = ffmpeg_cmd"
| "inputs_loop str image_durations (img # images) i ffmpeg_cmd =
     inputs_loop str image_durations images (i + 1)
       (ffmpeg_cmd @ [''-loop'', ''1'', ''-t'', str (image_durations ! i), ''-i'', img])"

text \<open>
  The loop that opens the filter graph: one scale-and-pad stage and one animation per
  image, appended to \<^verbatim>\<open>concat_filter\<close>.
\<close>

definition scale_stage :: "nat \<Rightarrow> string" where
  "scale_stage i =
     ''['' @ str_nat i @ '':v]scale=1080:1920:force_original_aspect_ratio=decrease,''
     @ ''pad=1080:1920:(ow-iw)/2:(oh-ih)/2,format=yuv420p,''"

function stages_loop ::
  "env \<Rightarrow> nat \<Rightarrow> pyfloat list \<Rightarrow> string \<Rightarrow> string \<Rightarrow> nat \<Rightarrow> string \<Rightarrow> string" where
  "stages_loop E n image_durations is_chromatic_effect is_zoom_pan i concat_filter =
     (if i < n then
        (let duration = image_durations ! i;
             frames = py_int (fmul duration 60)
         in stages_loop E n image_durations is_chromatic_effect is_zoom_pan (i + 1)
              (concat_filter @ scale_stage i
               @ get_random_animation (random_draw E i) frames 1080 1920 i
                   (str_float E duration) is_chromatic_effect is_zoom_pan))
      else concat_filter)"
  by pat_completeness auto
termination
  by (relation "measure (\<lambda>(E, n, ds, c, z, i, f). n - i)") auto

declare stages_loop.simps [simp del]

text \<open>\<^verbatim>\<open>if background_music_path:\<close> holds for a string that is not empty.\<close>

definition truthy :: "string option \<Rightarrow> bool" where
  "truthy p = (case p of None \<Rightarrow> False | Some s \<Rightarrow> s \<noteq> [])"

definition audio_stage :: "nat \<Rightarrow> string option \<Rightarrow> string" where
  "audio_stage n background_music_path =
     (if truthy background_music_path then
        ''['' @ str_nat n @ '':a]volume=1.0[voice];''
        @ ''['' @ str_nat (n + 1) @ '':a]volume=0.1[music];''
        @ ''[voice][music]amix=inputs=2:duration=shortest[audio_out]''
      else ''['' @ str_nat n @ '':a]volume=1.0[audio_out]'')"

text \<open>
  \<^verbatim>\<open>build_video\<close> up to its last statement: the subtitle file it writes and the command
  it is about to run.
\<close>

definition build_video_command ::
  "env \<Rightarrow> string list \<Rightarrow> string \<Rightarrow> string \<Rightarrow> pyfloat list \<Rightarrow> int \<Rightarrow> string \<Rightarrow> string
     \<Rightarrow> string \<Rightarrow> string option \<Rightarrow> string \<Rightarrow> string \<Rightarrow> string
     \<Rightarrow> py_exc + (string list \<times> string list)" where
  "build_video_command E images audio subtitles_string image_start_times caption_number
       color_stt color_encours is_zoom_pan background_music_path is_chromatic_effect
       output_path work_dir =
     (case parse_subtitles (float_of E) subtitles_string of
        Inl e \<Rightarrow> Inl e
      | Inr subtitles \<Rightarrow>
     (case create_ass_file subtitles color_stt color_encours caption_number of
        Inl e \<Rightarrow> Inl e
      | Inr ass \<Rightarrow>
     (let subtitle_file = path_join work_dir ''subtitles.ass'';
          subtitle_file_ffmpeg =
            replace_char (CHR '':'') (bsl @ '':'') (replace_char (CHR 0x5C) ''/'' subtitle_file);
          fonts_dir_ffmpeg =
            replace_char (CHR '':'') (bsl @ '':'') (replace_char (CHR 0x5C) ''/'' work_dir);
          ffmpeg_cmd = [''ffmpeg'', ''-y'']
      in
     (case get_audio_duration E audio of
        Inl e \<Rightarrow> Inl e
      | Inr audio_duration \<Rightarrow>
     (case image_durations_of (length images) image_start_times audio_duration of
        Inl e \<Rightarrow> Inl e
      | Inr durations \<Rightarrow>
     (let ffmpeg_cmd = inputs_loop (str_float E) durations images 0 ffmpeg_cmd;
          ffmpeg_cmd = ffmpeg_cmd @ [''-i'', audio];
          ffmpeg_cmd =
            (if truthy background_music_path
             then ffmpeg_cmd @ [''-i'', the background_music_path] else ffmpeg_cmd);
          concat_filter =
            stages_loop E (length images) durations is_chromatic_effect is_zoom_pan 0 [];
          concat_filter =
            concat_filter @ concat (map (\<lambda>i. ''[v'' @ str_nat i @ '']'') [0..<length images]);
          concat_filter =
            concat_filter @ ''concat=n='' @ str_nat (length images) @ '':v=1:a=0[vid];'';
          concat_filter =
            concat_filter @ ''[vid]ass='' @ sq @ subtitle_file_ffmpeg @ sq @ '':fontsdir='' @ sq
            @ fonts_dir_ffmpeg @ sq @ ''[outv];'';
          concat_filter = concat_filter @ audio_stage (length images) background_music_path
      in Inr (ass,
              ffmpeg_cmd
              @ [''-filter_complex'', concat_filter, ''-map'', ''[outv]'', ''-map'',
                 ''[audio_out]'', ''-c:v'', ''libx264'', ''-pix_fmt'', ''yuv420p'', ''-r'',
                 ''60'', ''-shortest'', output_path])))))))"

definition build_video ::
  "env \<Rightarrow> string list \<Rightarrow> string \<Rightarrow> string \<Rightarrow> pyfloat list \<Rightarrow> int \<Rightarrow> string \<Rightarrow> string
     \<Rightarrow> string \<Rightarrow> string option \<Rightarrow> string \<Rightarrow> string \<Rightarrow> string \<Rightarrow> py_exc option" where
  "build_video E images audio subtitles_string image_start_times caption_number
       color_stt color_encours is_zoom_pan background_music_path is_chromatic_effect
       output_path work_dir =
     (case build_video_command E images audio subtitles_string image_start_times
             caption_number color_stt color_encours is_zoom_pan background_music_path
             is_chromatic_effect output_path work_dir of
        Inl e \<Rightarrow> Some e
      | Inr (ass, ffmpeg_cmd) \<Rightarrow> run_ffmpeg E ffmpeg_cmd)"

section \<open>The job orchestrator\<close>

text \<open>
  The start-time reconciliation of \<^verbatim>\<open>generate_video\<close>: the
  \<^verbatim>\<open>while len(start_times) < len(image_paths)\<close> loop and the branches around it.
\<close>

function pad_loop :: "nat \<Rightarrow> pyfloat \<Rightarrow> pyfloat list \<Rightarrow> pyfloat list" where
  "pad_loop n last_time start_times =
     (if length start_times < n then
        (let last_time = fadd last_time 3
         in pad_loop n last_time (start_times @ [last_time]))
      else start_times)"
  by pat_completeness auto
termination
  by (relation "measure (\<lambda>(n, l, ts). n - length ts)") auto

declare pad_loop.simps [simp del]

definition reconcile_start_times :: "pyfloat list \<Rightarrow> nat \<Rightarrow> pyfloat list" where
  "reconcile_start_times start_times n =
     (if length start_times \<noteq> n then
        (if length start_times > n then take n start_times
         else pad_loop n (if start_times \<noteq> [] then last start_times else 0) start_times)
      else start_times)"

text \<open>The list comprehension over the start-time tokens; the first bad token raises.\<close>

fun floats_of :: "(string \<Rightarrow> py_exc + pyfloat) \<Rightarrow> string list \<Rightarrow> py_exc + pyfloat list" where
  "floats_of f [] = Inr []"
| "floats_of f (x # xs) =
     (if strip x \<noteq> [] then
        (case f (strip x) of
           Inl e \<Rightarrow> Inl e
         | Inr v \<Rightarrow> (case floats_of f xs of Inl e \<Rightarrow> Inl e | Inr vs \<Rightarrow> Inr (v # vs)))
      else floats_of f xs)"

datatype JobStatus = PENDING | PROCESSING | COMPLETED | FAILED

text \<open>The JSON object of a job file; a timestamp is the clock reading it was made from.\<close>

record job_data =
  job_id :: string
  status :: JobStatus
  progress :: int
  created_at :: nat
  updated_at :: nat
  error :: "string option"
  video_path :: "string option"

text \<open>The keyword arguments of \<^verbatim>\<open>process_video_job\<close>, as \<^verbatim>\<open>add_task\<close> stores them.\<close>

record task =
  t_job_id :: string
  image_paths :: "string list"
  audio_path :: string
  subtitles_string :: string
  start_times :: "pyfloat list"
  caption_number_int :: int
  color_stt :: string
  color_encours :: string
  is_zoom_pan :: string
  background_music_path :: "string option"
  is_chromatic_effect :: string
  work_dir :: string

text \<open>
  How far a background task has come: scheduled, past the first status write, past the
  staging of the fonts.
\<close>

datatype phase = Queued | Started | FontsStaged

text \<open>
  The state outside the program text: the job files under \<^verbatim>\<open>jobs/\<close> by job id, the
  working directories that exist, the number of clock readings taken so far, and the
  background tasks that have not finished, by job id. The bytes of the uploads and of the
  files written are not part of it, and writing a file is taken to succeed.
\<close>

record world =
  jobs :: "string \<rightharpoonup> job_data"
  work_dirs :: "string set"
  ticks :: nat
  tasks :: "string \<rightharpoonup> task \<times> phase"

definition save_job_status ::
  "env \<Rightarrow> string \<Rightarrow> JobStatus \<Rightarrow> int \<Rightarrow> string option \<Rightarrow> string option \<Rightarrow> world \<Rightarrow> world"
where
  "save_job_status E jid st prog err vpath w =
     (let job_data =
            \<lparr>job_id = jid, status = st, progress = prog,
             created_at = clock E (ticks w), updated_at = clock E (ticks w + 1),
             error = err, video_path = vpath\<rparr>
      in w\<lparr>jobs := (jobs w)(jid \<mapsto> job_data), ticks := ticks w + 2\<rparr>)"


fun copy_fonts_loop :: "env \<Rightarrow> string \<Rightarrow> string list \<Rightarrow> py_exc option" where
  "copy_fonts_loop E wd [] = None"
| "copy_fonts_loop E wd (font # fonts) =
     (if font_exists E font then
        (case copy_font E font wd of Some e \<Rightarrow> Some e | None \<Rightarrow> copy_fonts_loop E wd fonts)
      else copy_fonts_loop E wd fonts)"

definition copy_fonts_to_workdir :: "env \<Rightarrow> string \<Rightarrow> py_exc option" where
  "copy_fonts_to_workdir E wd = copy_fonts_loop E wd REQUIRED_FONTS"

text \<open>
  \<^verbatim>\<open>process_video_job\<close>, one status write at a time. A step returns the next phase, or
  \<open>None\<close> when the task has finished; an exception anywhere in the \<^verbatim>\<open>try\<close> block ends in
  the \<^verbatim>\<open>except\<close> clause.
\<close>

definition job_failed :: "env \<Rightarrow> task \<Rightarrow> py_exc \<Rightarrow> world \<Rightarrow> world" where
  "job_failed E t e w = save_job_status E (t_job_id t) FAILED 0 (Some (exc_str e)) None w"

fun process_step :: "env \<Rightarrow> task \<Rightarrow> phase \<Rightarrow> world \<Rightarrow> world \<times> phase option" where
  "process_step E t Queued w =
     (save_job_status E (t_job_id t) PROCESSING 10 None None w, Some Started)"
| "process_step E t Started w =
     (case copy_fonts_to_workdir E (work_dir t) of
        Some e \<Rightarrow> (job_failed E t e w, None)
      | None \<Rightarrow> (save_job_status E (t_job_id t) PROCESSING 20 None None w, Some FontsStaged))"
| "process_step E t FontsStaged w =
     (let output_path = path_join (work_dir t) ''final_video.mp4'' in
      case build_video E (image_paths t) (audio_path t) (subtitles_string t) (start_times t)
             (caption_number_int t) (color_stt t) (color_encours t) (is_zoom_pan t)
             (background_music_path t) (is_chromatic_effect t) output_path (work_dir t) of
        Some e \<Rightarrow> (job_failed E t e w, None)
      | None \<Rightarrow>
          (save_job_status E (t_job_id t) COMPLETED 100 None (Some output_path) w, None))"


text \<open>
  The request of \<^verbatim>\<open>generate_video\<close>: the 25 optional image uploads in order, each
  present one with its file name, and the form fields.
\<close>

record form =
  images :: "string option list"
  audio :: string
  background_music :: string
  f_subtitles_string :: string
  image_start_times :: string
  caption_number :: string
  f_color_stt :: string
  f_color_encours :: string
  f_is_zoom_pan :: string
  f_is_chromatic_effect :: string

datatype response =
    JSONResponse "(string \<times> string) list"
  | HTTPException nat string

text \<open>The image paths: \<^verbatim>\<open>image_{i}{suffix}\<close> under the working directory.\<close>

fun image_paths_loop :: "env \<Rightarrow> string \<Rightarrow> string list \<Rightarrow> nat \<Rightarrow> string list" where
  "image_paths_loop E wd [] i = []"
| "image_paths_loop E wd (name # names) i =
     path_join wd (''image_'' @ str_nat i @ suffix_of E name)
       # image_paths_loop E wd names (i + 1)"

text \<open>
  The \<^verbatim>\<open>try\<close> block of \<^verbatim>\<open>generate_video\<close> up to the reconciled start times: the task
  to schedule, or the exception raised.
\<close>

definition prepare_task :: "env \<Rightarrow> string \<Rightarrow> string \<Rightarrow> form \<Rightarrow> py_exc + task" where
  "prepare_task E jid wd f =
     (let uploaded_images = map the (filter (\<lambda>img. img \<noteq> None) (images f)) in
      if uploaded_images = [] then
        Inl (ValueError (''Aucune image n'' @ sq @ ''a '' @ [CHR 0xC3, CHR 0xA9] @ ''t''
               @ [CHR 0xC3, CHR 0xA9] @ '' upload'' @ [CHR 0xC3, CHR 0xA9] @ ''e''))
      else
        (let paths = image_paths_loop E wd uploaded_images 0;
             apath = path_join wd (''audio'' @ suffix_of E (audio f))
         in case (if background_music f = ''0'' then Inr None
                  else (case BACKGROUND_MUSIC_MAP (background_music f) of
                          None \<Rightarrow>
                            Inl (ValueError (''Num'' @ [CHR 0xC3, CHR 0xA9]
                                   @ ''ro de musique invalide''))
                        | Some music_filename \<Rightarrow>
                            if music_filename = [] then
                              Inl (ValueError (''Num'' @ [CHR 0xC3, CHR 0xA9]
                                     @ ''ro de musique invalide''))
                            else Inr (Some (path_join (base_dir E) music_filename)))) of
              Inl e \<Rightarrow> Inl e
            | Inr music_path \<Rightarrow>
           (case int_of E (caption_number f) of
              Inl e \<Rightarrow> Inl e
            | Inr cap \<Rightarrow>
           (case floats_of (float_of E)
                   (split_ws (replace_char (CHR '','') '' '' (image_start_times f))) of
              Inl e \<Rightarrow> Inl e
            | Inr parsed \<Rightarrow>
                Inr \<lparr>t_job_id = jid, image_paths = paths, audio_path = apath,
                     subtitles_string = f_subtitles_string f,
                     start_times = reconcile_start_times parsed (length paths),
                     caption_number_int = cap, color_stt = f_color_stt f,
                     color_encours = f_color_encours f, is_zoom_pan = f_is_zoom_pan f,
                     background_music_path = music_path,
                     is_chromatic_effect = f_is_chromatic_effect f, work_dir = wd\<rparr>))))"

text \<open>
  \<^verbatim>\<open>generate_video\<close>; \<open>jid\<close> is the string \<^verbatim>\<open>uuid.uuid4()\<close> returns. On an exception the
  working directory is removed and the request is answered with status 400.
\<close>

definition generate_video :: "env \<Rightarrow> string \<Rightarrow> form \<Rightarrow> world \<Rightarrow> response \<times> world" where
  "generate_video E jid f w =
     (let wd = path_join TEMP_DIR jid;
          w = w\<lparr>work_dirs := insert wd (work_dirs w)\<rparr>
      in case prepare_task E jid wd f of
           Inl e \<Rightarrow> (HTTPException 400 (exc_str e), w\<lparr>work_dirs := work_dirs w - {wd}\<rparr>)
         | Inr t \<Rightarrow>
             (let w = save_job_status E jid PENDING 0 None None w;
                  w = w\<lparr>tasks := (tasks w)(jid \<mapsto> (t, Queued))\<rparr>
              in (JSONResponse
                    [(''job_id'', jid), (''status'', ''pending''),
                     (''message'', ''Votre vid'' @ [CHR 0xC3, CHR 0xA9]
                        @ ''o est en cours de g'' @ [CHR 0xC3, CHR 0xA9] @ ''n''
                        @ [CHR 0xC3, CHR 0xA9] @ ''ration'')], w)))"



definition initial_world :: world where
  "initial_world = \<lparr>jobs = Map.empty, work_dirs = {}, ticks = 0, tasks = Map.empty\<rparr>"




section \<open>A concrete environment\<close>

text \<open>
  An environment for the concrete runs below: decimal literals for \<^verbatim>\<open>float\<close>, a probe
  that reports three seconds of audio, a renderer that succeeds, fonts that are all
  there, and a clock that counts its readings.
\<close>

definition example_env :: env where
  "example_env =
     \<lparr>float_of = float_of_decimal,
      int_of = (\<lambda>s. if s = ''2'' then Inr 2 else Inl (ValueError ''invalid literal'')),
      str_float = (\<lambda>x. if x = 3 then ''3.0'' else ''?''),
      suffix_of = (\<lambda>s. drop (length s - 4) s),
      base_dir = ''/app'',
      clock = (\<lambda>k. k),
      random_draw = (\<lambda>i. 0),
      ffprobe = (\<lambda>p. Inr ''3.0''),
      run_ffmpeg = (\<lambda>cmd. None),
      font_exists = (\<lambda>f. True),
      copy_font = (\<lambda>f d. None)\<rparr>"

definition example_form :: form where
  "example_form =
     \<lparr>images = Some ''a.png'' # replicate 24 None,
      audio = ''voice.mp3'',
      background_music = ''0'',
      f_subtitles_string = ''hi/0.0'',
      image_start_times = ''0'',
      caption_number = ''2'',
      f_color_stt = ''&H00FFFFFF'',
      f_color_encours = ''&H0000FFFF'',
      f_is_zoom_pan = ''non'',
      f_is_chromatic_effect = ''non''\<rparr>"








section \<open>The invariant of the job store\<close>


section \<open>Rounding to binary64\<close>

lemma powi2_less_cancel: "(2::rat) powi a < 2 powi b \<Longrightarrow> a < b"
  using power_int_increasing [of b a "2::rat"] by (cases "a < b") auto

lemma expo_from_eq:
  "2 powi e \<le> x \<Longrightarrow> x < 2 powi (e + 1) \<Longrightarrow> - 1022 \<le> e \<Longrightarrow> e \<le> int n - 1022
     \<Longrightarrow> expo_from n x = e"
proof (induction n)
  case 0
  then show ?case by simp
next
  case (Suc n)
  show ?case
  proof (cases "2 powi (int (Suc n) - 1022) \<le> x")
    case True
    with Suc.prems(2) have "(2::rat) powi (int (Suc n) - 1022) < 2 powi (e + 1)" by simp
    then have "int (Suc n) - 1022 < e + 1" by (rule powi2_less_cancel)
    with Suc.prems(4) True show ?thesis by simp
  next
    case False
    with Suc.prems(1) have "(2::rat) powi e < 2 powi (int (Suc n) - 1022)" by simp
    then have "e < int (Suc n) - 1022" by (rule powi2_less_cancel)
    then have "e \<le> int n - 1022" by simp
    with Suc False show ?thesis by simp
  qed
qed

lemma expo_from_sub: "x < 2 powi (- 1022) \<Longrightarrow> expo_from n x = - 1022"
proof (induction n)
  case 0
  then show ?case by simp
next
  case (Suc n)
  have "(2::rat) powi (- 1022) \<le> 2 powi (int (Suc n) - 1022)"
    by (rule power_int_increasing) simp_all
  with Suc show ?case by simp
qed

lemma expo_eq:
  "2 powi e \<le> \<bar>x\<bar> \<Longrightarrow> \<bar>x\<bar> < 2 powi (e + 1) \<Longrightarrow> - 1022 \<le> e \<Longrightarrow> e \<le> 1023
     \<Longrightarrow> expo x = e"
  unfolding expo_def by (rule expo_from_eq) simp_all

lemma expo_subnormal: "\<bar>x\<bar> < 2 powi (- 1022) \<Longrightarrow> expo x = - 1022"
  unfolding expo_def by (rule expo_from_sub)

lemma expo_from_lower: "- 1022 \<le> expo_from n x"
  by (induction n) simp_all

lemma expo_from_upper: "x < 2 powi (e + 1) \<Longrightarrow> - 1022 \<le> e \<Longrightarrow> expo_from n x \<le> e"
proof (induction n)
  case 0
  then show ?case by simp
next
  case (Suc n)
  show ?case
  proof (cases "2 powi (int (Suc n) - 1022) \<le> x")
    case True
    with Suc.prems(1) have "(2::rat) powi (int (Suc n) - 1022) < 2 powi (e + 1)" by simp
    then have "int (Suc n) - 1022 < e + 1" by (rule powi2_less_cancel)
    with True show ?thesis by simp
  next
    case False
    with Suc show ?thesis by simp
  qed
qed

lemma expo_upper: "\<bar>x\<bar> < 2 powi (e + 1) \<Longrightarrow> - 1022 \<le> e \<Longrightarrow> expo x \<le> e"
  unfolding expo_def by (rule expo_from_upper)

lemma quantum_pos: "0 < quantum x"
  by (simp add: quantum_def)

lemma rhe_ge: "of_int m \<le> y \<Longrightarrow> m \<le> rhe y"
proof -
  assume "of_int m \<le> y"
  then have "m \<le> \<lfloor>y\<rfloor>" by (simp add: le_floor_iff)
  then show ?thesis by (simp add: rhe_def Let_def)
qed

lemma rhe_le: "y \<le> of_int m \<Longrightarrow> rhe y \<le> m"
proof -
  assume a: "y \<le> of_int m"
  show ?thesis
  proof (cases "y = of_int m")
    case True
    then show ?thesis by (simp add: rhe_def)
  next
    case False
    with a have "y < of_int m" by simp
    then have "\<lfloor>y\<rfloor> < m" by (simp add: floor_less_iff)
    then show ?thesis by (simp add: rhe_def Let_def)
  qed
qed

lemma rhe_of_int: "rhe (of_int m) = m"
  by (simp add: rhe_def)

lemma fl_ge:
  assumes "g = of_int m * quantum x" and "g \<le> x"
  shows "g \<le> fl x"
proof -
  from assms quantum_pos [of x] have "of_int m \<le> x / quantum x"
    by (simp add: pos_le_divide_eq)
  then have "m \<le> rhe (x / quantum x)" by (rule rhe_ge)
  then have "(of_int m :: rat) \<le> of_int (rhe (x / quantum x))" by simp
  with quantum_pos [of x] show ?thesis
    unfolding fl_def assms(1) by (simp add: mult_right_mono)
qed

lemma fl_le:
  assumes "g = of_int m * quantum x" and "x \<le> g"
  shows "fl x \<le> g"
proof -
  from assms quantum_pos [of x] have "x / quantum x \<le> of_int m"
    by (simp add: pos_divide_le_eq)
  then have "rhe (x / quantum x) \<le> m" by (rule rhe_le)
  then have "(of_int (rhe (x / quantum x)) :: rat) \<le> of_int m" by simp
  with quantum_pos [of x] show ?thesis
    unfolding fl_def assms(1) by (simp add: mult_right_mono)
qed

lemma quantum_int_multiple:
  assumes "\<bar>x\<bar> < 2 ^ 53"
  shows "\<exists>m. (of_int k :: rat) = of_int m * quantum x"
proof -
  have "\<bar>x\<bar> < 2 powi (52 + 1)" using assms by simp
  then have "expo x \<le> 52" by (rule expo_upper) simp
  then obtain j where j: "expo x - 52 = - int j"
    by (metis add.inverse_inverse diff_le_0_iff_le nonneg_int_cases neg_le_0_iff_le)
  have "(of_int k :: rat) = of_int (k * 2 ^ j) * quantum x"
    by (simp add: quantum_def j power_int_minus)
  then show ?thesis ..
qed

lemma fl_ge_int: "\<bar>x\<bar> < 2 ^ 53 \<Longrightarrow> of_int k \<le> x \<Longrightarrow> of_int k \<le> fl x"
  using quantum_int_multiple fl_ge by blast

lemma fl_le_int: "\<bar>x\<bar> < 2 ^ 53 \<Longrightarrow> x \<le> of_int k \<Longrightarrow> fl x \<le> of_int k"
  using quantum_int_multiple fl_le by blast

lemma fl_eval:
  "2 powi e \<le> \<bar>x\<bar> \<Longrightarrow> \<bar>x\<bar> < 2 powi (e + 1) \<Longrightarrow> - 1022 \<le> e \<Longrightarrow> e \<le> 1023
     \<Longrightarrow> fl x = of_int (rhe (x / 2 powi (e - 52))) * 2 powi (e - 52)"
  by (simp add: fl_def quantum_def expo_eq)

lemma fl_0: "fl 0 = 0"
  by (simp add: fl_def rhe_def)


lemma rhe_near: "\<bar>y - of_int k\<bar> < 1 / 2 \<Longrightarrow> rhe y = k"
proof -
  assume a: "\<bar>y - of_int k\<bar> < 1 / 2"
  show ?thesis
  proof (cases "of_int k \<le> y")
    case True
    with a have "\<lfloor>y\<rfloor> = k" by (intro floor_unique) auto
    with a True show ?thesis by (simp add: rhe_def)
  next
    case False
    with a have "\<lfloor>y\<rfloor> = k - 1" by (intro floor_unique) auto
    with a False show ?thesis by (simp add: rhe_def)
  qed
qed


lemma fl_near:
  assumes "2 powi e \<le> \<bar>x\<bar>" "\<bar>x\<bar> < 2 powi (e + 1)" "- 1022 \<le> e" "e \<le> 1023"
    and "\<bar>x / 2 powi (e - 52) - of_int k\<bar> < 1 / 2"
  shows "fl x = of_int k * 2 powi (e - 52)"
  using assms by (simp add: fl_eval rhe_near)


lemma fl_35: "fl (35 / 100) = 6305039478318694 / 2 ^ 54"
  using fl_near [of "-2" "35/100" 6305039478318694] by simp











lemma floor_divide_int_rat:
  fixes a :: rat
  assumes "0 < b"
  shows "\<lfloor>a / of_int b\<rfloor> = \<lfloor>a\<rfloor> div b"
proof (rule floor_unique)
  have "(\<lfloor>a\<rfloor> div b) * b \<le> \<lfloor>a\<rfloor>" using assms
    by (metis add.commute add.right_neutral add_mono_thms_linordered_semiring(1) div_mult_mod_eq
        pos_mod_sign order_refl mult.commute)
  then have "(of_int ((\<lfloor>a\<rfloor> div b) * b) :: rat) \<le> of_int \<lfloor>a\<rfloor>" by (simp only: of_int_le_iff)
  also have "\<dots> \<le> a" by simp
  finally show "of_int (\<lfloor>a\<rfloor> div b) \<le> a / of_int b"
    using assms by (simp add: pos_le_divide_eq)
  have "\<lfloor>a\<rfloor> < (\<lfloor>a\<rfloor> div b + 1) * b" using assms
    by (metis add.commute distrib_right div_mult_mod_eq mult.commute mult_1 pos_mod_bound
        add_less_cancel_left)
  then have "\<lfloor>a\<rfloor> + 1 \<le> (\<lfloor>a\<rfloor> div b + 1) * b" by simp
  then have "(of_int (\<lfloor>a\<rfloor> + 1) :: rat) \<le> of_int ((\<lfloor>a\<rfloor> div b + 1) * b)"
    by (simp only: of_int_le_iff)
  moreover have "a < of_int (\<lfloor>a\<rfloor> + 1)" by linarith
  ultimately have "a < of_int ((\<lfloor>a\<rfloor> div b + 1) * b)" by linarith
  then show "a / of_int b < of_int (\<lfloor>a\<rfloor> div b) + 1"
    using assms by (simp add: pos_divide_less_eq)
qed

lemma py_int_of_int: "py_int (of_int k) = k"
  by (simp add: py_int_def)

lemma format_fields:
  assumes nn: "0 \<le> s"
  defines "N \<equiv> \<lfloor>s\<rfloor>"
  shows "py_int (py_floordiv s 3600) = N div 3600"
    and "py_int (py_floordiv (py_mod s 3600) 60) = (N mod 3600) div 60"
    and "py_int (py_mod s 60) = N mod 60"
    and "py_mod s 1 = s - of_int N"
proof -
  have d: "\<lfloor>s / 3600\<rfloor> = N div 3600" "\<lfloor>s / 60\<rfloor> = N div 60"
    using floor_divide_int_rat [of 3600 s] floor_divide_int_rat [of 60 s] by (simp_all add: N_def)
  show "py_int (py_floordiv s 3600) = N div 3600"
    by (simp add: py_floordiv_def py_int_of_int d)
  have pm: "py_mod s 3600 = s - of_int (N div 3600 * 3600)"
    by (simp add: py_mod_def d)
  have "\<lfloor>py_mod s 3600\<rfloor> = N - N div 3600 * 3600"
    unfolding pm by (simp only: floor_diff_of_int N_def)
  then have fm: "\<lfloor>py_mod s 3600\<rfloor> = N mod 3600" by (simp add: minus_div_mult_eq_mod)
  have "\<lfloor>py_mod s 3600 / 60\<rfloor> = \<lfloor>py_mod s 3600\<rfloor> div 60"
    using floor_divide_int_rat [of 60 "py_mod s 3600"] by simp
  then show "py_int (py_floordiv (py_mod s 3600) 60) = (N mod 3600) div 60"
    by (simp add: py_floordiv_def py_int_of_int fm)
  have "py_mod s 60 = s - of_int (N div 60 * 60)" by (simp add: py_mod_def d)
  then have "\<lfloor>py_mod s 60\<rfloor> = N - N div 60 * 60"
    by (simp only: floor_diff_of_int N_def)
  then have f: "\<lfloor>py_mod s 60\<rfloor> = N mod 60" by (simp add: minus_div_mult_eq_mod)
  have "0 \<le> N mod 60" by simp
  then have "0 \<le> py_mod s 60" using f by (metis zero_le_floor)
  then show "py_int (py_mod s 60) = N mod 60" by (simp add: py_int_def f)
  show "py_mod s 1 = s - of_int N" by (simp add: py_mod_def N_def)
qed

lemma fl_of_int: "\<bar>of_int k :: rat\<bar> < 2 ^ 53 \<Longrightarrow> fl (of_int k) = of_int k"
  using fl_ge_int [of "of_int k" k] fl_le_int [of "of_int k" k] by simp

lemma fl_small_numerals:
  "fl 1 = 1" "fl 3 = 3" "fl 5 = 5" "fl 8 = 8" "fl 9 = 9" "fl (- 4) = - 4"
  using fl_of_int [of 1] fl_of_int [of 3] fl_of_int [of 5] fl_of_int [of 8] fl_of_int [of 9]
    fl_of_int [of "- 4"] by simp_all





section \<open>The timestamp formatter\<close>




lemma str_nat_0: "str_nat 0 = ''0''"
  by code_simp

lemma fmt_02d_small: "fmt_02d 0 = ''00''" "fmt_02d 35 = ''35''" "fmt_02d 28 = ''28''"
  by code_simp+



section \<open>Status writes\<close>

text \<open>
  Claim C10. A status write stores a whole new record: both timestamps are clock readings
  taken during this write, the error message and the artifact location are the ones
  passed with it, and nothing of the record held before survives, whatever it was. The
  first write of a background task is an instance: it passes neither field, so both are
  null afterwards and the creation timestamp is the one of this write.
\<close>

theorem save_job_status_replaces_record:
  "jobs (save_job_status E jid st prog err vpath w) jid =
     Some \<lparr>job_id = jid, status = st, progress = prog,
           created_at = clock E (ticks w), updated_at = clock E (ticks w + 1),
           error = err, video_path = vpath\<rparr>
   \<and> jobs (save_job_status E jid st prog err vpath (w\<lparr>jobs := (jobs w)(jid := old)\<rparr>))
       = jobs (save_job_status E jid st prog err vpath w)
   \<and> jobs (fst (process_step E t Queued (w\<lparr>jobs := (jobs w)(t_job_id t := old)\<rparr>))) (t_job_id t) =
     Some \<lparr>job_id = t_job_id t, status = PROCESSING, progress = 10,
           created_at = clock E (ticks w), updated_at = clock E (ticks w + 1),
           error = None, video_path = None\<rparr>"
  by (simp add: save_job_status_def)

section \<open>Image durations\<close>






section \<open>Start-time reconciliation\<close>

lemma pad_loop_closed:
  "length ts \<le> n \<Longrightarrow>
   pad_loop n l ts = ts @ map (\<lambda>j. ((\<lambda>x. fadd x 3) ^^ Suc j) l) [0..<n - length ts]"
proof (induction n l ts rule: pad_loop.induct)
  case (1 n l ts)
  show ?case
  proof (cases "length ts < n")
    case False
    with "1.prems" show ?thesis by (simp add: pad_loop.simps)
  next
    case True
    then have u: "[0..<n - length ts] = 0 # map Suc [0..<n - Suc (length ts)]"
      by (metis Suc_diff_Suc map_Suc_upt upt_conv_Cons zero_less_diff)
    have "pad_loop n l ts = pad_loop n (fadd l 3) (ts @ [fadd l 3])"
      using True by (subst pad_loop.simps) (simp add: Let_def)
    also have "\<dots> = (ts @ [fadd l 3])
        @ map (\<lambda>j. ((\<lambda>x. fadd x 3) ^^ Suc j) (fadd l 3)) [0..<n - length (ts @ [fadd l 3])]"
      using True by (intro "1.IH") simp_all
    also have "\<dots> = ts @ map (\<lambda>j. ((\<lambda>x. fadd x 3) ^^ Suc j) l) [0..<n - length ts]"
    proof -
      have sw: "((\<lambda>x. fadd x 3) ^^ j) (fadd l 3) = fadd (((\<lambda>x. fadd x 3) ^^ j) l) 3" for j
        using funpow_swap1 [of "\<lambda>x. fadd x 3" j l] by simp
      show ?thesis by (simp add: u sw comp_def)
    qed
    finally show ?thesis .
  qed
qed

text \<open>
  Claim C6. Reconciling the start times \<open>ts\<close> with \<open>n\<close> images keeps the first \<open>n\<close> of them
  when there are too many; otherwise it keeps them all and appends the missing ones, the
  \<open>j\<close>-th of which is 3.0 added \<open>j + 1\<close> times to the last start time supplied, or to 0
  when none was. The result has \<open>n\<close> entries, and five images with the start times
  0, 1, 2 get 0, 1, 2, 5, 8.
\<close>

theorem reconcile_start_times_policy:
  "reconcile_start_times ts n =
     (if n < length ts then take n ts
      else ts
           @ map (\<lambda>j. ((\<lambda>x. fadd x 3) ^^ Suc j) (if ts = [] then 0 else last ts))
               [0..<n - length ts])
   \<and> length (reconcile_start_times ts n) = n
   \<and> reconcile_start_times [0, 1, 2] 5 = [0, 1, 2, 5, 8]"
proof -
  have c: "reconcile_start_times ts m =
     (if m < length ts then take m ts
      else ts @ map (\<lambda>j. ((\<lambda>x. fadd x 3) ^^ Suc j) (if ts = [] then 0 else last ts))
                  [0..<m - length ts])" for ts m
    using pad_loop_closed [of ts m "if ts \<noteq> [] then last ts else 0"]
    by (auto simp: reconcile_start_times_def)
  have "reconcile_start_times [0, 1, 2] 5 = [0, 1, 2, 5, 8]"
    by (simp add: c upt_conv_Cons fadd_def fl_small_numerals)
  moreover have "length (reconcile_start_times ts n) = n"
    by (simp add: c)
  ultimately show ?thesis using c by blast
qed

section \<open>The timing parser: results\<close>


lemma parse_loop_error:
  assumes "parse_loop f parts i acc = Inr res"
  shows "\<forall>k. i + 2 * k + 1 < length parts \<longrightarrow> (\<exists>t. f (parts ! (i + 2 * k + 1)) = Inr t)"
  using assms
proof (induction f parts i acc rule: parse_loop.induct)
  case (1 f parts i acc)
  show ?case
  proof (cases "i + 1 < length parts")
    case False
    then show ?thesis by simp
  next
    case True
    from "1.prems" True obtain t where t: "f (parts ! (i + 1)) = Inr t"
      and r: "parse_loop f parts (i + 2) (acc @ [\<lparr>word = parts ! i, start = t, end_time = 0\<rparr>]) = Inr res"
      by (subst (asm) parse_loop.simps) (auto split: sum.splits)
    note ih = "1.IH" [OF True t r]
    show ?thesis
    proof (intro allI impI)
      fix k assume k: "i + 2 * k + 1 < length parts"
      show "\<exists>t. f (parts ! (i + 2 * k + 1)) = Inr t"
      proof (cases k)
        case 0
        with t show ?thesis by simp
      next
        case (Suc j)
        with k ih [rule_format, of j] show ?thesis by (simp add: algebra_simps)
      qed
    qed
  qed
qed










section \<open>The subtitle compiler: results\<close>

lemma fmt_02d_01: "fmt_02d 1 = ''01''"
  by code_simp

lemma format_time_ass_0: "format_time_ass 0 = ''0:00:00.00''"
proof -
  note fld = format_fields [of 0, simplified]
  have "py_int (fmul (py_mod 0 1) 100) = 0" by (simp add: fld(4) fmul_def fl_0 py_int_def)
  then show ?thesis
    by (simp add: format_time_ass_def fld(1,2,3) str_int_def str_nat_0 fmt_02d_small)
qed

lemma format_time_ass_1: "format_time_ass 1 = ''0:00:01.00''"
proof -
  note fld = format_fields [of 1, simplified]
  have "py_int (fmul (py_mod 1 1) 100) = 0" by (simp add: fld(4) fmul_def fl_0 py_int_def)
  then show ?thesis
    by (simp add: format_time_ass_def fld(1,2,3) str_int_def str_nat_0 fmt_02d_small fmt_02d_01)
qed

lemma upper_space: "upper '' '' = '' ''"
  by (simp add: upper_def upper_char_def)

text \<open>
  Claim C2 on the code. In the loop of styles 1, 2 and 7 the test for a single space
  looks at the decorated word. Style 1 only upper-cases, and the space cue is skipped;
  styles 2 and 7 have put an override tag in front by then, the test never succeeds, and
  a cue whose text is a single space gets its dialogue line.
\<close>

theorem space_cue_gets_dialogue_line:
  "dialogue_lines 2 ''&H0000FFFF'' [\<lparr>word = '' '', start = 0, end_time = 1\<rparr>] =
     Inr [''Dialogue: 0,0:00:00.00,0:00:01.00,Default,,0,0,0,,{'' @ bsl @ ''t(0,100,'' @ bsl
            @ ''fs110)} '' @ nl]
   \<and> dialogue_lines 7 ''&H0000FFFF'' [\<lparr>word = '' '', start = 0, end_time = 1\<rparr>] =
     Inr [''Dialogue: 0,0:00:00.00,0:00:01.00,Default,,0,0,0,,{'' @ bsl @ ''blur10'' @ bsl
            @ ''t(0,100,'' @ bsl @ ''fs110)} '' @ nl]
   \<and> dialogue_lines 1 ''&H0000FFFF'' [\<lparr>word = '' '', start = 0, end_time = 1\<rparr>] = Inr []
   \<and> create_ass_file [\<lparr>word = '' '', start = 0, end_time = 1\<rparr>] ''&H00FFFFFF'' ''&H0000FFFF'' 2 =
     Inr (ass_header
          @ [''Style: Default,Montserrat Black,90,&H00FFFFFF,&H000000FF,&H00000000,&H00000000,0,0,0,0,100,100,0,0,1,11,6,5,10,10,10,1'' @ nl,
             nl]
          @ events_header
          @ [''Dialogue: 0,0:00:00.00,0:00:01.00,Default,,0,0,0,,{'' @ bsl @ ''t(0,100,'' @ bsl
               @ ''fs110)} '' @ nl])"
  by (simp add: dialogue_lines_def create_ass_file_def style_line_def default_line_def
      format_time_ass_0 format_time_ass_1 upper_space str_nat_0 bsl_def)





section \<open>The filter graph compiler: results\<close>












section \<open>The job orchestrator: results\<close>



lemma generate_video_rejected:
  assumes "prepare_task E jid (path_join TEMP_DIR jid) f = Inl e"
  shows "generate_video E jid f w =
           (HTTPException 400 (exc_str e), w\<lparr>work_dirs := work_dirs w - {path_join TEMP_DIR jid}\<rparr>)"
  using assms by (simp add: generate_video_def Let_def)











lemma prepare_task_invalid_music:
  assumes "filter (\<lambda>img. img \<noteq> None) (images f) \<noteq> []"
    and "background_music f \<noteq> ''0''"
    and "BACKGROUND_MUSIC_MAP (background_music f) = None"
  shows "prepare_task E jid wd f =
      Inl (ValueError (''Num'' @ [CHR 0xC3, CHR 0xA9] @ ''ro de musique invalide''))"
  using assms by (simp add: prepare_task_def Let_def)

text \<open>
  Claim C4, as the code has it. A submission with at least one image whose music selector
  is neither \<^verbatim>\<open>0\<close> nor a key of the catalog is answered with status 400 and the
  validation message as detail. Its working directory is removed, no job record is
  written and no background task is scheduled: there is no job that could be FAILED.
\<close>

theorem invalid_music_rejected:
  assumes "filter (\<lambda>img. img \<noteq> None) (images f) \<noteq> []"
    and "background_music f \<noteq> ''0''"
    and "BACKGROUND_MUSIC_MAP (background_music f) = None"
  shows "generate_video E jid f w =
           (HTTPException 400 (''Num'' @ [CHR 0xC3, CHR 0xA9] @ ''ro de musique invalide''),
            w\<lparr>work_dirs := work_dirs w - {path_join TEMP_DIR jid}\<rparr>)
    \<and> jobs (snd (generate_video E jid f w)) = jobs w
    \<and> tasks (snd (generate_video E jid f w)) = tasks w"
proof -
  have "prepare_task E jid (path_join TEMP_DIR jid) f =
      Inl (ValueError (''Num'' @ [CHR 0xC3, CHR 0xA9] @ ''ro de musique invalide''))"
    using assms by (rule prepare_task_invalid_music)
  then show ?thesis by (simp add: generate_video_rejected)
qed



lemma example_prepare_invalid:
  "filter (\<lambda>img. img \<noteq> None) (images (example_form\<lparr>background_music := ''9''\<rparr>)) \<noteq> []"
  "background_music (example_form\<lparr>background_music := ''9''\<rparr>) \<noteq> ''0''"
  "BACKGROUND_MUSIC_MAP (background_music (example_form\<lparr>background_music := ''9''\<rparr>)) = None"
  by (simp_all add: example_form_def BACKGROUND_MUSIC_MAP_def)















text \<open>
  The example form with the music selector 9, submitted to the empty service: the answer
  is the rejection, and there is no record for the job id.
\<close>

theorem invalid_music_no_job_counterexample:
  "fst (generate_video example_env ''j1'' (example_form\<lparr>background_music := ''9''\<rparr>)
         initial_world)
     = HTTPException 400 (''Num'' @ [CHR 0xC3, CHR 0xA9] @ ''ro de musique invalide'')
   \<and> jobs (snd (generate_video example_env ''j1'' (example_form\<lparr>background_music := ''9''\<rparr>)
               initial_world)) ''j1'' = None"
proof -
  have "prepare_task example_env ''j1'' (path_join TEMP_DIR ''j1'')
      (example_form\<lparr>background_music := ''9''\<rparr>) =
      Inl (ValueError (''Num'' @ [CHR 0xC3, CHR 0xA9] @ ''ro de musique invalide''))"
    using example_prepare_invalid by (rule prepare_task_invalid_music)
  then show ?thesis by (simp add: generate_video_rejected initial_world_def)
qed

text \<open>The same submission, through the general result.\<close>

theorem invalid_music_rejected_witness:
  "filter (\<lambda>img. img \<noteq> None) (images (example_form\<lparr>background_music := ''9''\<rparr>)) \<noteq> []
   \<and> background_music (example_form\<lparr>background_music := ''9''\<rparr>) \<noteq> ''0''
   \<and> BACKGROUND_MUSIC_MAP (background_music (example_form\<lparr>background_music := ''9''\<rparr>)) = None
   \<and> generate_video example_env ''j1'' (example_form\<lparr>background_music := ''9''\<rparr>)
         initial_world =
       (HTTPException 400 (''Num'' @ [CHR 0xC3, CHR 0xA9] @ ''ro de musique invalide''),
        initial_world\<lparr>work_dirs := work_dirs initial_world - {path_join TEMP_DIR ''j1''}\<rparr>)
   \<and> jobs (snd (generate_video example_env ''j1'' (example_form\<lparr>background_music := ''9''\<rparr>)
               initial_world)) = jobs initial_world
   \<and> tasks (snd (generate_video example_env ''j1'' (example_form\<lparr>background_music := ''9''\<rparr>)
                initial_world)) = tasks initial_world"
proof -
  note r = invalid_music_rejected [OF example_prepare_invalid, of example_env "''j1''"
      initial_world]
  from r have c1: "generate_video example_env ''j1'' (example_form\<lparr>background_music := ''9''\<rparr>)
         initial_world =
       (HTTPException 400 (''Num'' @ [CHR 0xC3, CHR 0xA9] @ ''ro de musique invalide''),
        initial_world\<lparr>work_dirs := work_dirs initial_world - {path_join TEMP_DIR ''j1''}\<rparr>)"
    by (rule conjunct1)
  from r have c2: "jobs (snd (generate_video example_env ''j1''
      (example_form\<lparr>background_music := ''9''\<rparr>) initial_world)) = jobs initial_world"
    by (elim conjE)
  from r have c3: "tasks (snd (generate_video example_env ''j1''
      (example_form\<lparr>background_music := ''9''\<rparr>) initial_world)) = tasks initial_world"
    by (elim conjE)
  show ?thesis by (intro conjI example_prepare_invalid c1 c2 c3)
qed

end
